theory Spec2Isabelle
  imports Main "HOL-Library.Word"
begin

unbundle bit_operations_syntax

section \<open>The token endpoint of the chat application (src/app/api/ably/route.ts)\<close>

text \<open>
  The route has three functions: \<open>generateCapability\<close> (role claim to channel
  permissions), \<open>createToken\<close> (builds and signs the JSON Web Token) and the \<open>GET\<close>
  handler. They are embedded below in that order, after the JavaScript built-ins and the
  parts of the \<open>jose\<close> library they call.

  JavaScript strings are modelled as \<open>string\<close>, one \<open>char\<close> per UTF-16 code unit, which
  covers the code units below 256. An object used as a dictionary is an association list
  holding its own properties in enumeration order.
\<close>

subsection \<open>Data\<close>

text \<open>The role claim \<open>{ isMod: boolean }\<close>.\<close>

record role_claim =
  isMod :: bool

text \<open>
  What \<open>generateCapability\<close> returns: an object whose values are arrays of strings.
\<close>

type_synonym channel_table = "(string \<times> string list) list"

text \<open>
  The parameter type of \<open>createToken\<close>, \<open>{ [key: string]: string[] | undefined }\<close>:
  a property may be present with the value \<open>undefined\<close> (\<open>None\<close>).
\<close>

type_synonym capability = "(string \<times> string list option) list"

type_synonym byte = "8 word"

datatype js_error =
    TypeError
  | JWSInvalid
  | KeyImportError
  | Rejected string

subsection \<open>JavaScript built-ins used by the route\<close>

text \<open>
  \<open>String.prototype.split(separator, limit)\<close> with a one-character separator: the
  string is cut at every occurrence of the separator (an empty string gives one empty
  piece), and only the first \<open>limit\<close> pieces are kept.
\<close>

fun split_all :: "char \<Rightarrow> string \<Rightarrow> string list" where
  "split_all sep [] = [[]]"
| "split_all sep (c # cs) =
     (if c = sep then [] # split_all sep cs
      else (case split_all sep cs of
              [] \<Rightarrow> [[c]]
            | p # ps \<Rightarrow> (c # p) # ps))"

definition String_split :: "string \<Rightarrow> char \<Rightarrow> nat \<Rightarrow> string list" where
  "String_split s sep limit = take limit (split_all sep s)"

text \<open>
  Array destructuring \<open>const [a, b] = arr\<close> reads \<open>arr[0]\<close> and \<open>arr[1]\<close>; an index
  past the end gives \<open>undefined\<close>.
\<close>

definition element_at :: "'a list \<Rightarrow> nat \<Rightarrow> 'a option" where
  "element_at xs i = (if i < length xs then Some (xs ! i) else None)"

text \<open>
  \<open>TextEncoder.prototype.encode\<close>: the UTF-8 bytes of the string. A code unit below
  128 is one byte, one from 128 to 255 is two. The argument is optional with default
  \<open>""\<close>, so \<open>encode(undefined)\<close> is the empty byte array.
\<close>

definition utf8_of_char :: "char \<Rightarrow> byte list" where
  "utf8_of_char c =
     (let n = (of_char c :: nat) in
      if n < 128 then [of_nat n]
      else [192 OR of_nat (n div 64), 128 OR of_nat (n mod 64)])"

definition TextEncoder_encode :: "string option \<Rightarrow> byte list" where
  "TextEncoder_encode input =
     (case input of
        None \<Rightarrow> []
      | Some s \<Rightarrow> concat (map utf8_of_char s))"

text \<open>
  \<open>JSON.stringify\<close> on the two shapes the route serialises. A string is quoted as
  ECMAScript's QuoteJSONString does: the double quote and the backslash are escaped, the
  control characters have their short escapes or \<open>\u00XX\<close> with lower-case hexadecimal
  digits, every other code unit is copied.
\<close>

definition dquote :: char where
  "dquote = CHR 0x22"

definition bslash :: char where
  "bslash = CHR 0x5C"

definition hex_digit :: "nat \<Rightarrow> char" where
  "hex_digit n = (if n < 10 then char_of (48 + n) else char_of (87 + n))"

definition quote_char :: "char \<Rightarrow> string" where
  "quote_char c =
     (if c = CHR 0x08 then [bslash, CHR ''b'']
      else if c = CHR 0x09 then [bslash, CHR ''t'']
      else if c = CHR 0x0A then [bslash, CHR ''n'']
      else if c = CHR 0x0C then [bslash, CHR ''f'']
      else if c = CHR 0x0D then [bslash, CHR ''r'']
      else if c = dquote then [bslash, dquote]
      else if c = bslash then [bslash, bslash]
      else if (of_char c :: nat) < 32 then
        [bslash, CHR ''u'', CHR ''0'', CHR ''0'',
         hex_digit (of_char c div 16), hex_digit (of_char c mod 16)]
      else [c])"

definition QuoteJSONString :: "string \<Rightarrow> string" where
  "QuoteJSONString s = dquote # concat (map quote_char s) @ [dquote]"

text \<open>Elements and properties are separated by a comma, with no white space.\<close>

fun comma_join :: "string list \<Rightarrow> string" where
  "comma_join [] = []"
| "comma_join [x] = x"
| "comma_join (x # y # ys) = x @ CHR '','' # comma_join (y # ys)"

definition stringify_array :: "string list \<Rightarrow> string" where
  "stringify_array xs = CHR ''['' # comma_join (map QuoteJSONString xs) @ [CHR '']'']"

text \<open>A property whose value is \<open>undefined\<close> is left out of the serialised object.\<close>

fun stringify_properties :: "capability \<Rightarrow> string list" where
  "stringify_properties [] = []"
| "stringify_properties ((k, None) # ps) = stringify_properties ps"
| "stringify_properties ((k, Some v) # ps) =
     (QuoteJSONString k @ CHR '':'' # stringify_array v) # stringify_properties ps"

definition JSON_stringify_capability :: "capability \<Rightarrow> string" where
  "JSON_stringify_capability cap =
     CHR ''{'' # comma_join (stringify_properties cap) @ [CHR ''}'']"

definition JSON_stringify_claim :: "role_claim \<Rightarrow> string" where
  "JSON_stringify_claim claim =
     CHR ''{'' # QuoteJSONString ''isMod'' @ CHR '':'' #
       (if isMod claim then ''true'' else ''false'') @ [CHR ''}'']"

subsection \<open>The \<open>jose\<close> library: building and signing a token\<close>

text \<open>
  The library is imported by the route and is not part of the repository. The definitions
  of this subsection follow its documented behaviour for the five calls the route makes:
  \<open>new SignJWT(payload)\<close>, \<open>setProtectedHeader\<close>, \<open>setIssuedAt()\<close>,
  \<open>setExpirationTime(span)\<close> and \<open>sign(key)\<close>.
\<close>

record protected_header =
  kid :: "string option"
  alg :: string

text \<open>
  The claims set: the three claims the route passes to the constructor, and the two
  registered claims the builder adds (absent until set).
\<close>

record jwt_payload =
  x_ably_capability :: string
  x_ably_clientId :: string
  ably_channel_star :: string
  iat :: "int option"
  exp :: "int option"

record sign_jwt =
  protectedHeader :: "protected_header option"
  claims :: jwt_payload

text \<open>
  A signed token. The compact serialisation (three base64url parts joined by dots) is
  kept in structured form: the header and the claims as they decode, and the signature
  bytes.
\<close>

record jwt =
  header :: protected_header
  payload :: jwt_payload
  signature :: "byte list"

text \<open>
  What the route takes from the platform it runs on: the HMAC-SHA-256 function, over the
  signing input in structured form, and whether importing a zero-length secret is
  accepted. WebCrypto's \<open>importKey\<close> rejects an empty HMAC key; Node's key objects
  accept one since version 16.18. A secret of one byte or more is accepted by both.
\<close>

record platform =
  hmac_sha256 :: "byte list \<Rightarrow> protected_header \<times> jwt_payload \<Rightarrow> byte list"
  zero_length_key_ok :: bool

definition new_SignJWT :: "string \<Rightarrow> string \<Rightarrow> string \<Rightarrow> sign_jwt" where
  "new_SignJWT cap_json clientId claim_json =
     \<lparr>protectedHeader = None,
      claims = \<lparr>x_ably_capability = cap_json, x_ably_clientId = clientId,
                ably_channel_star = claim_json, iat = None, exp = None\<rparr>\<rparr>"

definition setProtectedHeader :: "protected_header \<Rightarrow> sign_jwt \<Rightarrow> sign_jwt" where
  "setProtectedHeader h b = b\<lparr>protectedHeader := Some h\<rparr>"

text \<open>
  \<open>epoch(date)\<close> is \<open>Math.floor(date.getTime() / 1000)\<close>: whole seconds from a clock
  reading in milliseconds.
\<close>

definition epoch :: "int \<Rightarrow> int" where
  "epoch ms = ms div 1000"

text \<open>
  \<open>setIssuedAt()\<close> without an argument sets \<open>iat\<close> to the current timestamp: it reads
  the clock when it is called. The reading is the parameter \<open>now\<close>.
\<close>

definition setIssuedAt :: "int \<Rightarrow> sign_jwt \<Rightarrow> sign_jwt" where
  "setIssuedAt now b = b\<lparr>claims := (claims b)\<lparr>iat := Some (epoch now)\<rparr>\<rparr>"

text \<open>
  \<open>secs(span)\<close> resolves a time span such as \<open>"24h"\<close> to seconds: a number followed
  by a unit. The unsigned whole-number form without spaces is modelled; any other string
  gives \<open>None\<close>.
\<close>

definition is_digit :: "char \<Rightarrow> bool" where
  "is_digit c = (48 \<le> (of_char c :: nat) \<and> (of_char c :: nat) \<le> 57)"

definition decimal :: "string \<Rightarrow> int" where
  "decimal ds = foldl (\<lambda>n c. 10 * n + (int (of_char c) - 48)) 0 ds"

definition unit_seconds :: "string \<Rightarrow> int option" where
  "unit_seconds u =
     (if u \<in> set [''sec'', ''secs'', ''second'', ''seconds'', ''s''] then Some 1
      else if u \<in> set [''minute'', ''minutes'', ''min'', ''mins'', ''m''] then Some 60
      else if u \<in> set [''hour'', ''hours'', ''hr'', ''hrs'', ''h''] then Some (60 * 60)
      else if u \<in> set [''day'', ''days'', ''d''] then Some (60 * 60 * 24)
      else if u \<in> set [''week'', ''weeks'', ''w''] then Some (60 * 60 * 24 * 7)
      else if u \<in> set [''year'', ''years'', ''yr'', ''yrs'', ''y'']
        then Some 31557600
      else None)"

definition secs :: "string \<Rightarrow> int option" where
  "secs span =
     (let ds = takeWhile is_digit span; u = dropWhile is_digit span in
      if ds = [] then None
      else (case unit_seconds u of
              None \<Rightarrow> None
            | Some k \<Rightarrow> Some (decimal ds * k)))"

text \<open>
  \<open>setExpirationTime(span)\<close> with a string adds the span to the current timestamp: it
  reads the clock again, when it is called, and throws a TypeError on a span it cannot
  resolve.
\<close>

definition setExpirationTime :: "int \<Rightarrow> string \<Rightarrow> sign_jwt \<Rightarrow> js_error + sign_jwt" where
  "setExpirationTime now span b =
     (case secs span of
        None \<Rightarrow> Inl TypeError
      | Some d \<Rightarrow> Inr (b\<lparr>claims := (claims b)\<lparr>exp := Some (epoch now + d)\<rparr>\<rparr>))"

text \<open>
  \<open>sign(key)\<close> with a byte array as the key: the protected header must have been set,
  the key is imported as an HMAC secret, and the token is the header, the claims and the
  HMAC of both. Nothing is returned when a step fails.
\<close>

definition SignJWT_sign :: "platform \<Rightarrow> byte list \<Rightarrow> sign_jwt \<Rightarrow> js_error + jwt" where
  "SignJWT_sign pf key b =
     (case protectedHeader b of
        None \<Rightarrow> Inl JWSInvalid
      | Some h \<Rightarrow>
          if key = [] \<and> \<not> zero_length_key_ok pf then Inl KeyImportError
          else Inr \<lparr>header = h, payload = claims b,
                    signature = hmac_sha256 pf key (h, claims b)\<rparr>)"

subsection \<open>\<open>createToken\<close>\<close>

text \<open>
  The API key is typed \<open>string\<close>, but the handler passes \<open>process.env.ABLY_SECRET_KEY
  as string\<close>, which is \<open>undefined\<close> when the variable is not set; calling \<open>split\<close> on
  it throws a TypeError. The two clock readings, in milliseconds, are those of
  \<open>setIssuedAt\<close> and of \<open>setExpirationTime\<close>, in the order of the calls.
\<close>

definition createToken ::
  "platform \<Rightarrow> int \<Rightarrow> int \<Rightarrow> string \<Rightarrow> string option \<Rightarrow> role_claim \<Rightarrow> capability
     \<Rightarrow> js_error + jwt" where
  "createToken pf now_iat now_exp clientId apiKey claim capability =
     (case apiKey of
        None \<Rightarrow> Inl TypeError
      | Some key_string \<Rightarrow>
          let parts = String_split key_string (CHR '':'') 2;
              appId = element_at parts 0;
              signingKey = element_at parts 1;
              b0 = new_SignJWT (JSON_stringify_capability capability) clientId
                     (JSON_stringify_claim claim);
              b1 = setProtectedHeader \<lparr>kid = appId, alg = ''HS256''\<rparr> b0;
              b2 = setIssuedAt now_iat b1
          in (case setExpirationTime now_exp ''24h'' b2 of
                Inl e \<Rightarrow> Inl e
              | Inr b3 \<Rightarrow> SignJWT_sign pf (TextEncoder_encode signingKey) b3))"

subsection \<open>\<open>generateCapability\<close>\<close>

definition generateCapability :: "role_claim \<Rightarrow> channel_table" where
  "generateCapability claim =
     (if isMod claim then [(''*'', [''*''])]
      else
        [(''chat:general'', [''subscribe'', ''publish'', ''presence'', ''history'']),
         (''chat:random'', [''subscribe'', ''publish'', ''presence'', ''history'']),
         (''chat:announcements'', [''subscribe'', ''presence'', ''history''])])"

text \<open>
  Passing the table where \<open>createToken\<close> expects its wider parameter type: every
  property is present with a defined value.
\<close>

definition as_capability :: "channel_table \<Rightarrow> capability" where
  "as_capability t = map (\<lambda>(k, v). (k, Some v)) t"

subsection \<open>The \<open>GET\<close> handler\<close>

text \<open>
  The session of the identity provider: \<open>auth()\<close> resolves to a session or to
  \<open>null\<close>; the session's \<open>user\<close> and the user's \<open>email\<close> may be missing
  (\<open>None\<close> stands for \<open>undefined\<close> and \<open>null\<close>). Optional chaining \<open>a?.b\<close> is
  \<open>Option.bind a b\<close>.
\<close>

record auth_user =
  email :: "string option"

record session =
  user :: "auth_user option"

text \<open>The JSON body \<open>{ success, token?, error? }\<close> and the response carrying it.\<close>

record response_body =
  success :: bool
  token :: "jwt option"
  error :: "string option"

record next_response =
  status :: nat
  body :: response_body

text \<open>\<open>NextResponse.json(body, init)\<close>: the status is 200 unless \<open>init\<close> gives one.\<close>

definition NextResponse_json :: "response_body \<Rightarrow> nat option \<Rightarrow> next_response" where
  "NextResponse_json b init_status =
     \<lparr>status = (case init_status of None \<Rightarrow> 200 | Some st \<Rightarrow> st), body = b\<rparr>"

text \<open>
  The handler's calls are recorded in order, with their arguments, beside the response.
\<close>

datatype call =
    Call_auth
  | Call_generateCapability role_claim
  | Call_createToken string "string option" role_claim capability
  | Call_console_error js_error

text \<open>
  The inputs of a request: the platform, the two clock readings \<open>createToken\<close> makes,
  the outcome of \<open>await auth()\<close> (a rejection or a session, possibly \<open>null\<close>) and the
  environment variable \<open>ABLY_SECRET_KEY\<close>.

  In \<open>user?.email && (await createToken(...))\<close> the right operand is evaluated only
  when the email is truthy, that is a non-empty string. A signed token is a non-empty
  string, so \<open>if (token)\<close> holds exactly when \<open>createToken\<close> returned one. Everything
  thrown inside \<open>try\<close> is caught, logged and answered with "Internal server error".
\<close>

definition GET ::
  "platform \<Rightarrow> int \<Rightarrow> int \<Rightarrow> js_error + session option \<Rightarrow> string option
     \<Rightarrow> next_response \<times> call list" where
  "GET pf now_iat now_exp auth_outcome ABLY_SECRET_KEY =
     (case auth_outcome of
        Inl e \<Rightarrow>
          (NextResponse_json
             \<lparr>success = False, token = None, error = Some ''Internal server error''\<rparr>
             (Some 500),
           [Call_auth, Call_console_error e])
      | Inr sess \<Rightarrow>
          let usr = Option.bind sess user;
              userClaim = \<lparr>isMod = False\<rparr>;
              userCapability = generateCapability userClaim;
              user_email = Option.bind usr email;
              failed =
                NextResponse_json
                  \<lparr>success = False, token = None, error = Some ''Token generation failed''\<rparr>
                  (Some 500)
          in (case user_email of
                None \<Rightarrow> (failed, [Call_auth, Call_generateCapability userClaim])
              | Some em \<Rightarrow>
                  if em = [] then (failed, [Call_auth, Call_generateCapability userClaim])
                  else
                    (case createToken pf now_iat now_exp em ABLY_SECRET_KEY userClaim
                            (as_capability userCapability) of
                       Inl e \<Rightarrow>
                         (NextResponse_json
                            \<lparr>success = False, token = None,
                             error = Some ''Internal server error''\<rparr>
                            (Some 500),
                          [Call_auth, Call_generateCapability userClaim,
                           Call_createToken em ABLY_SECRET_KEY userClaim
                             (as_capability userCapability),
                           Call_console_error e])
                     | Inr t \<Rightarrow>
                         (NextResponse_json
                            \<lparr>success = True, token = Some t, error = None\<rparr> None,
                          [Call_auth, Call_generateCapability userClaim,
                           Call_createToken em ABLY_SECRET_KEY userClaim
                             (as_capability userCapability)]))))"

subsection \<open>Decoding the claims of a token\<close>

text \<open>
  The consumer of a token reads the capability claim back with \<open>JSON.parse\<close>. The
  decoder below accepts the JSON texts that are an object of arrays of strings: a pass
  over the characters gives the tokens (undoing the escapes of string literals), a pass
  over the tokens gives the table, its properties in the order of the text.
\<close>

datatype json_token =
    LBrace | RBrace | LBracket | RBracket | Colon | Comma | StringTok string

definition hex_value :: "char \<Rightarrow> nat option" where
  "hex_value c =
     (let n = (of_char c :: nat) in
      if 48 \<le> n \<and> n \<le> 57 then Some (n - 48)
      else if 97 \<le> n \<and> n \<le> 102 then Some (n - 87)
      else if 65 \<le> n \<and> n \<le> 70 then Some (n - 55)
      else None)"

text \<open>
  \<open>\uXXXX\<close> names a code unit; those below 256 are in the model.
\<close>

definition hex4 :: "char \<Rightarrow> char \<Rightarrow> char \<Rightarrow> char \<Rightarrow> char option" where
  "hex4 a b c d =
     (case (hex_value a, hex_value b, hex_value c, hex_value d) of
        (Some x, Some y, Some z, Some w) \<Rightarrow>
          if x = 0 \<and> y = 0 then Some (char_of (16 * z + w)) else None
      | _ \<Rightarrow> None)"

definition unescape :: "char \<Rightarrow> char option" where
  "unescape e =
     (if e = dquote then Some dquote
      else if e = bslash then Some bslash
      else if e = CHR ''/'' then Some CHR ''/''
      else if e = CHR ''b'' then Some (CHR 0x08)
      else if e = CHR ''f'' then Some (CHR 0x0C)
      else if e = CHR ''n'' then Some (CHR 0x0A)
      else if e = CHR ''r'' then Some (CHR 0x0D)
      else if e = CHR ''t'' then Some (CHR 0x09)
      else None)"

definition is_space :: "char \<Rightarrow> bool" where
  "is_space c = (c = CHR '' '' \<or> c = CHR 0x09 \<or> c = CHR 0x0A \<or> c = CHR 0x0D)"

text \<open>
  The first argument is \<open>None\<close> between tokens and holds the characters read so far,
  last first, inside a string literal.
\<close>

fun lex :: "string option \<Rightarrow> json_token list \<Rightarrow> string \<Rightarrow> json_token list option" where
  "lex None toks [] = Some (rev toks)"
| "lex (Some acc) toks [] = None"
| "lex None toks (c # cs) =
     (if c = CHR ''{'' then lex None (LBrace # toks) cs
      else if c = CHR ''}'' then lex None (RBrace # toks) cs
      else if c = CHR ''['' then lex None (LBracket # toks) cs
      else if c = CHR '']'' then lex None (RBracket # toks) cs
      else if c = CHR '':'' then lex None (Colon # toks) cs
      else if c = CHR '','' then lex None (Comma # toks) cs
      else if c = dquote then lex (Some []) toks cs
      else if is_space c then lex None toks cs
      else None)"
| "lex (Some acc) toks (c # cs) =
     (if c = dquote then lex None (StringTok (rev acc) # toks) cs
      else if c = bslash then
        (case cs of
           [] \<Rightarrow> None
         | e # cs1 \<Rightarrow>
             if e = CHR ''u'' then
               (case cs1 of
                  h1 # h2 # h3 # h4 # cs2 \<Rightarrow>
                    (case hex4 h1 h2 h3 h4 of
                       None \<Rightarrow> None
                     | Some x \<Rightarrow> lex (Some (x # acc)) toks cs2)
                | _ \<Rightarrow> None)
             else
               (case unescape e of
                  None \<Rightarrow> None
                | Some x \<Rightarrow> lex (Some (x # acc)) toks cs1))
      else if (of_char c :: nat) < 32 then None
      else lex (Some (c # acc)) toks cs)"

datatype parse_state =
    P_start
  | P_key_or_end
  | P_key
  | P_colon string
  | P_array string
  | P_elem_or_end string
  | P_comma_or_end string "string list"
  | P_elem string "string list"
  | P_next
  | P_done

text \<open>
  One token moves the parser to its next state; a token the state does not expect ends
  the parse. The table and the elements of the current array are accumulated last first.
\<close>

definition parse_step ::
  "parse_state \<Rightarrow> channel_table \<Rightarrow> json_token \<Rightarrow> (parse_state \<times> channel_table) option" where
  "parse_step st acc tok =
     (case st of
        P_start \<Rightarrow> (case tok of LBrace \<Rightarrow> Some (P_key_or_end, acc) | _ \<Rightarrow> None)
      | P_key_or_end \<Rightarrow>
          (case tok of
             RBrace \<Rightarrow> Some (P_done, acc)
           | StringTok k \<Rightarrow> Some (P_colon k, acc)
           | _ \<Rightarrow> None)
      | P_key \<Rightarrow> (case tok of StringTok k \<Rightarrow> Some (P_colon k, acc) | _ \<Rightarrow> None)
      | P_colon k \<Rightarrow> (case tok of Colon \<Rightarrow> Some (P_array k, acc) | _ \<Rightarrow> None)
      | P_array k \<Rightarrow> (case tok of LBracket \<Rightarrow> Some (P_elem_or_end k, acc) | _ \<Rightarrow> None)
      | P_elem_or_end k \<Rightarrow>
          (case tok of
             RBracket \<Rightarrow> Some (P_next, (k, []) # acc)
           | StringTok x \<Rightarrow> Some (P_comma_or_end k [x], acc)
           | _ \<Rightarrow> None)
      | P_comma_or_end k xs \<Rightarrow>
          (case tok of
             Comma \<Rightarrow> Some (P_elem k xs, acc)
           | RBracket \<Rightarrow> Some (P_next, (k, rev xs) # acc)
           | _ \<Rightarrow> None)
      | P_elem k xs \<Rightarrow>
          (case tok of StringTok x \<Rightarrow> Some (P_comma_or_end k (x # xs), acc) | _ \<Rightarrow> None)
      | P_next \<Rightarrow>
          (case tok of
             Comma \<Rightarrow> Some (P_key, acc)
           | RBrace \<Rightarrow> Some (P_done, acc)
           | _ \<Rightarrow> None)
      | P_done \<Rightarrow> None)"

fun parse_table :: "parse_state \<Rightarrow> channel_table \<Rightarrow> json_token list \<Rightarrow> channel_table option" where
  "parse_table st acc [] = (case st of P_done \<Rightarrow> Some (rev acc) | _ \<Rightarrow> None)"
| "parse_table st acc (tok # ts) =
     (case parse_step st acc tok of
        None \<Rightarrow> None
      | Some (st', acc') \<Rightarrow> parse_table st' acc' ts)"

definition JSON_parse_table :: "string \<Rightarrow> channel_table option" where
  "JSON_parse_table s =
     (case lex None [] s of
        None \<Rightarrow> None
      | Some ts \<Rightarrow> parse_table P_start [] ts)"

definition decode_capability :: "jwt \<Rightarrow> channel_table option" where
  "decode_capability t = JSON_parse_table (x_ably_capability (payload t))"

definition decode_clientId :: "jwt \<Rightarrow> string" where
  "decode_clientId t = x_ably_clientId (payload t)"

subsection \<open>The tokens of a serialised table\<close>

text \<open>
  The properties that \<open>JSON.stringify\<close> writes: those with a defined value.
\<close>

fun defined_properties :: "capability \<Rightarrow> channel_table" where
  "defined_properties [] = []"
| "defined_properties ((k, None) # ps) = defined_properties ps"
| "defined_properties ((k, Some v) # ps) = (k, v) # defined_properties ps"

text \<open>The token sequence of a table, with commas between elements and properties.\<close>

fun token_join :: "json_token list list \<Rightarrow> json_token list" where
  "token_join [] = []"
| "token_join [x] = x"
| "token_join (x # y # ys) = x @ Comma # token_join (y # ys)"

definition tokens_of_array :: "string list \<Rightarrow> json_token list" where
  "tokens_of_array xs = LBracket # token_join (map (\<lambda>x. [StringTok x]) xs) @ [RBracket]"

definition tokens_of_property :: "string \<times> string list \<Rightarrow> json_token list" where
  "tokens_of_property p = StringTok (fst p) # Colon # tokens_of_array (snd p)"

definition tokens_of_table :: "channel_table \<Rightarrow> json_token list" where
  "tokens_of_table t = LBrace # token_join (map tokens_of_property t) @ [RBrace]"

text \<open>
  A text lexes to a token sequence when the lexer, between tokens, reads the text and
  is left between tokens with these tokens added.
\<close>

definition lexes_to :: "string \<Rightarrow> json_token list \<Rightarrow> bool" where
  "lexes_to s q = (\<forall>toks rest. lex None toks (s @ rest) = lex None (rev q @ toks) rest)"

subsection \<open>Notions used to state the properties\<close>

text \<open>
  A secret is well formed when it contains exactly one separator and the separator
  splits it into two non-empty parts.
\<close>

definition well_formed_secret :: "string \<Rightarrow> bool" where
  "well_formed_secret s =
     (count_list s (CHR '':'') = 1 \<and>
      takeWhile (\<lambda>c. c \<noteq> CHR '':'') s \<noteq> [] \<and>
      drop 1 (dropWhile (\<lambda>c. c \<noteq> CHR '':'') s) \<noteq> [])"

text \<open>
  The signing material of a secret: the text between its first separator and the next
  one, or the end of the string; empty when the secret has no separator.
\<close>

definition signing_material :: "string \<Rightarrow> string" where
  "signing_material s =
     takeWhile (\<lambda>c. c \<noteq> CHR '':'') (drop 1 (dropWhile (\<lambda>c. c \<noteq> CHR '':'') s))"

text \<open>
  A platform for the concrete instances: it rejects a zero-length key, as WebCrypto
  does. Its MAC stands in for HMAC-SHA-256, on whose value no property below depends.
\<close>

definition example_platform :: platform where
  "example_platform = \<lparr>hmac_sha256 = (\<lambda>key input. key), zero_length_key_ok = False\<rparr>"

section \<open>Properties\<close>

subsection \<open>Splitting the secret\<close>

lemma split_all_not_Nil: "split_all sep s \<noteq> []"
  by (induction s) (auto split: list.splits)

lemma split_all_no_sep: "sep \<notin> set s \<Longrightarrow> split_all sep s = [s]"
  by (induction s) auto

lemma split_all_at_first_sep:
  "sep \<notin> set A \<Longrightarrow> split_all sep (A @ sep # R) = A # split_all sep R"
  by (induction A) auto

lemma hd_split_all: "hd (split_all sep s) = takeWhile (\<lambda>c. c \<noteq> sep) s"
  by (induction s) (auto split: list.splits simp: split_all_not_Nil)

lemma String_split_no_sep: "sep \<notin> set s \<Longrightarrow> String_split s sep 2 = [s]"
  by (simp add: String_split_def split_all_no_sep)

lemma String_split_at_first_sep:
  assumes "sep \<notin> set A"
  shows "String_split (A @ sep # R) sep 2 = [A, takeWhile (\<lambda>c. c \<noteq> sep) R]"
proof -
  obtain p ps where ps: "split_all sep R = p # ps"
    using split_all_not_Nil [of sep R] by (cases "split_all sep R") auto
  then have "p = takeWhile (\<lambda>c. c \<noteq> sep) R"
    using hd_split_all [of sep R] by simp
  with ps assms show ?thesis
    by (simp add: String_split_def split_all_at_first_sep numeral_2_eq_2)
qed

text \<open>The second piece of the split is the signing material, when there is one.\<close>

lemma second_piece:
  "element_at (String_split s (CHR '':'') 2) 1 =
     (if CHR '':'' \<in> set s then Some (signing_material s) else None)"
proof (cases "CHR '':'' \<in> set s")
  case False
  then show ?thesis
    by (simp add: String_split_no_sep element_at_def)
next
  case True
  then obtain A R where s: "s = A @ CHR '':'' # R" and A: "CHR '':'' \<notin> set A"
    by (meson split_list_first)
  have "dropWhile (\<lambda>c. c \<noteq> CHR '':'') s = CHR '':'' # R"
    using A by (auto simp: s dropWhile_append3)
  then have "signing_material s = takeWhile (\<lambda>c. c \<noteq> CHR '':'') R"
    by (simp add: signing_material_def)
  with True show ?thesis
    using String_split_at_first_sep [OF A, of R] by (simp add: s element_at_def)
qed

lemma signing_material_no_sep: "CHR '':'' \<notin> set s \<Longrightarrow> signing_material s = []"
  by (induction s) (auto simp: signing_material_def)

lemma utf8_of_char_not_Nil: "utf8_of_char c \<noteq> []"
  by (simp add: utf8_of_char_def Let_def)

lemma TextEncoder_encode_Nil_iff:
  "TextEncoder_encode input = [] \<longleftrightarrow> input = None \<or> input = Some []"
  by (cases input) (auto simp: TextEncoder_encode_def utf8_of_char_not_Nil)

lemma key_bytes_empty_iff:
  "TextEncoder_encode (element_at (String_split s (CHR '':'') 2) 1) = []
     \<longleftrightarrow> signing_material s = []"
  by (simp only: second_piece TextEncoder_encode_Nil_iff) (simp add: signing_material_no_sep)

subsection \<open>What \<open>createToken\<close> computes\<close>

lemma secs_24h: "secs ''24h'' = Some 86400"
  by (simp add: secs_def is_digit_def decimal_def unit_seconds_def)

lemma createToken_Some:
  "createToken pf t1 t2 cid (Some s) claim cap =
     (let parts = String_split s (CHR '':'') 2;
          key = TextEncoder_encode (element_at parts 1);
          h = \<lparr>kid = element_at parts 0, alg = ''HS256''\<rparr>;
          p = \<lparr>x_ably_capability = JSON_stringify_capability cap, x_ably_clientId = cid,
               ably_channel_star = JSON_stringify_claim claim,
               iat = Some (epoch t1), exp = Some (epoch t2 + 86400)\<rparr>
      in if key = [] \<and> \<not> zero_length_key_ok pf then Inl KeyImportError
         else Inr \<lparr>header = h, payload = p, signature = hmac_sha256 pf key (h, p)\<rparr>)"
  by (simp add: createToken_def Let_def secs_24h setExpirationTime_def setIssuedAt_def
      setProtectedHeader_def new_SignJWT_def SignJWT_sign_def)

lemma key_bytes:
  "TextEncoder_encode (element_at (String_split s (CHR '':'') 2) 1) =
     TextEncoder_encode (Some (signing_material s))"
  by (simp only: second_piece)
     (simp add: signing_material_no_sep TextEncoder_encode_def)

lemma createToken_by_signing_material:
  "createToken pf t1 t2 cid (Some s) claim cap =
     (if signing_material s = [] \<and> \<not> zero_length_key_ok pf then Inl KeyImportError
      else Inr \<lparr>header = \<lparr>kid = element_at (String_split s (CHR '':'') 2) 0, alg = ''HS256''\<rparr>,
                payload =
                  \<lparr>x_ably_capability = JSON_stringify_capability cap, x_ably_clientId = cid,
                   ably_channel_star = JSON_stringify_claim claim,
                   iat = Some (epoch t1), exp = Some (epoch t2 + 86400)\<rparr>,
                signature =
                  hmac_sha256 pf (TextEncoder_encode (Some (signing_material s)))
                    (\<lparr>kid = element_at (String_split s (CHR '':'') 2) 0, alg = ''HS256''\<rparr>,
                     \<lparr>x_ably_capability = JSON_stringify_capability cap, x_ably_clientId = cid,
                      ably_channel_star = JSON_stringify_claim claim,
                      iat = Some (epoch t1), exp = Some (epoch t2 + 86400)\<rparr>)\<rparr>)"
  unfolding createToken_Some Let_def key_bytes
  by (simp add: TextEncoder_encode_Nil_iff)

lemma createToken_Inr:
  assumes "createToken pf t1 t2 cid apiKey claim cap = Inr t"
  shows "payload t =
           \<lparr>x_ably_capability = JSON_stringify_capability cap, x_ably_clientId = cid,
            ably_channel_star = JSON_stringify_claim claim,
            iat = Some (epoch t1), exp = Some (epoch t2 + 86400)\<rparr>"
    and "alg (header t) = ''HS256''"
    and "\<exists>s. apiKey = Some s \<and> kid (header t) = element_at (String_split s (CHR '':'') 2) 0
           \<and> signature t =
               hmac_sha256 pf (TextEncoder_encode (element_at (String_split s (CHR '':'') 2) 1))
                 (header t, payload t)"
proof -
  obtain s where s: "apiKey = Some s"
    using assms by (cases apiKey) (auto simp: createToken_def)
  show "payload t =
           \<lparr>x_ably_capability = JSON_stringify_capability cap, x_ably_clientId = cid,
            ably_channel_star = JSON_stringify_claim claim,
            iat = Some (epoch t1), exp = Some (epoch t2 + 86400)\<rparr>"
    using assms unfolding s createToken_Some by (auto simp: Let_def split: if_splits)
  show "alg (header t) = ''HS256''"
    using assms unfolding s createToken_Some by (auto simp: Let_def split: if_splits)
  show "\<exists>s. apiKey = Some s \<and> kid (header t) = element_at (String_split s (CHR '':'') 2) 0
           \<and> signature t =
               hmac_sha256 pf (TextEncoder_encode (element_at (String_split s (CHR '':'') 2) 1))
                 (header t, payload t)"
    using assms unfolding s createToken_Some by (auto simp: Let_def split: if_splits)
qed

lemma createToken_well_formed:
  assumes "CHR '':'' \<notin> set A" and "B \<noteq> []" and "CHR '':'' \<notin> set B"
  shows "\<exists>t. createToken pf t1 t2 cid (Some (A @ CHR '':'' # B)) claim cap = Inr t
           \<and> kid (header t) = Some A"
proof -
  have tw: "takeWhile (\<lambda>c. c \<noteq> CHR '':'') B = B"
    using assms(3) by (auto simp: takeWhile_eq_all_conv)
  have parts: "String_split (A @ CHR '':'' # B) (CHR '':'') 2 = [A, B]"
    using String_split_at_first_sep [OF assms(1), of B] tw by simp
  have key: "TextEncoder_encode (Some B) \<noteq> []"
    using assms(2) by (simp add: TextEncoder_encode_Nil_iff)
  show ?thesis
    using key by (simp add: createToken_Some parts element_at_def Let_def)
qed

subsection \<open>Parsing undoes serialising\<close>

lemma hex_value_hex_digit: "k < 16 \<Longrightarrow> hex_value (hex_digit k) = Some k"
  by (auto simp: hex_value_def hex_digit_def Let_def)

lemma hex_value_zero: "hex_value (CHR ''0'') = Some 0"
  by (simp add: hex_value_def)

lemma hex4_control:
  assumes "(of_char c :: nat) < 32"
  shows "hex4 (CHR ''0'') (CHR ''0'') (hex_digit (of_char c div 16)) (hex_digit (of_char c mod 16))
           = Some c"
proof -
  have "(of_char c :: nat) div 16 < 16" "(of_char c :: nat) mod 16 < 16"
    using assms by auto
  then show ?thesis
    by (simp add: hex4_def hex_value_zero hex_value_hex_digit)
qed

text \<open>Inside a string literal the lexer reads an escaped character back.\<close>

lemma lex_quote_char:
  "lex (Some acc) toks (quote_char c @ cs) = lex (Some (c # acc)) toks cs"
proof -
  consider (short) "c \<in> {CHR 0x08, CHR 0x09, CHR 0x0A, CHR 0x0C, CHR 0x0D, dquote, bslash}"
    | (u) "c \<notin> {CHR 0x08, CHR 0x09, CHR 0x0A, CHR 0x0C, CHR 0x0D, dquote, bslash}"
          "(of_char c :: nat) < 32"
    | (plain) "c \<notin> {CHR 0x08, CHR 0x09, CHR 0x0A, CHR 0x0C, CHR 0x0D, dquote, bslash}"
          "\<not> (of_char c :: nat) < 32"
    by blast
  then show ?thesis
  proof cases
    case short
    then show ?thesis
      by (auto simp: quote_char_def unescape_def dquote_def bslash_def)
  next
    case u
    then have "quote_char c =
        [bslash, CHR ''u'', CHR ''0'', CHR ''0'', hex_digit (of_char c div 16),
         hex_digit (of_char c mod 16)]"
      by (simp add: quote_char_def)
    then show ?thesis
      using hex4_control [OF u(2)] by (simp add: dquote_def bslash_def)
  next
    case plain
    then have "quote_char c = [c]"
      by (simp add: quote_char_def)
    then show ?thesis
      using plain by simp
  qed
qed

lemma lex_quoted_body:
  "lex (Some acc) toks (concat (map quote_char s) @ dquote # rest) =
     lex None (StringTok (rev acc @ s) # toks) rest"
proof (induction s arbitrary: acc)
  case Nil
  show ?case by simp
next
  case (Cons c s)
  show ?case
    using Cons [of "c # acc"] by (simp add: lex_quote_char)
qed

lemma lexes_to_string: "lexes_to (QuoteJSONString s) [StringTok s]"
  using lex_quoted_body [of "[]" _ s]
  by (simp add: lexes_to_def QuoteJSONString_def dquote_def)

lemma lexes_to_append:
  "lexes_to s q \<Longrightarrow> lexes_to s' q' \<Longrightarrow> lexes_to (s @ s') (q @ q')"
  by (simp add: lexes_to_def)

lemma lexes_to_punctuation:
  "lexes_to ''{'' [LBrace]" "lexes_to ''}'' [RBrace]"
  "lexes_to ''['' [LBracket]" "lexes_to '']'' [RBracket]"
  "lexes_to '':'' [Colon]" "lexes_to '','' [Comma]"
  by (simp_all add: lexes_to_def)

lemma lexes_to_Nil: "lexes_to [] []"
  by (simp add: lexes_to_def)

lemma lexes_to_join:
  "list_all2 lexes_to ps qs \<Longrightarrow> lexes_to (comma_join ps) (token_join qs)"
proof (induction ps arbitrary: qs rule: comma_join.induct)
  case 1
  then show ?case by (simp add: lexes_to_Nil)
next
  case (2 x)
  then show ?case by (auto simp: list_all2_Cons1)
next
  case (3 x y ys)
  from "3.prems" obtain q q' qs' where qs: "qs = q # q' # qs'"
    and x: "lexes_to x q" and rest: "list_all2 lexes_to (y # ys) (q' # qs')"
    by (auto simp: list_all2_Cons1)
  have "lexes_to (x @ '','' @ comma_join (y # ys)) (q @ [Comma] @ token_join (q' # qs'))"
    by (intro lexes_to_append x lexes_to_punctuation "3.IH" rest)
  then show ?case by (simp add: qs)
qed

lemma lexes_to_array: "lexes_to (stringify_array xs) (tokens_of_array xs)"
proof -
  have "list_all2 lexes_to (map QuoteJSONString xs) (map (\<lambda>x. [StringTok x]) xs)"
    by (simp add: list_all2_conv_all_nth lexes_to_string)
  then have "lexes_to (''['' @ comma_join (map QuoteJSONString xs) @ '']'')
      ([LBracket] @ token_join (map (\<lambda>x. [StringTok x]) xs) @ [RBracket])"
    by (intro lexes_to_append lexes_to_punctuation lexes_to_join)
  then show ?thesis
    by (simp add: stringify_array_def tokens_of_array_def)
qed

lemma lexes_to_properties:
  "list_all2 lexes_to (stringify_properties cap) (map tokens_of_property (defined_properties cap))"
proof (induction cap rule: stringify_properties.induct)
  case 1
  show ?case by simp
next
  case (2 k ps)
  then show ?case by simp
next
  case (3 k v ps)
  have "lexes_to (QuoteJSONString k @ '':'' @ stringify_array v)
          ([StringTok k] @ [Colon] @ tokens_of_array v)"
    by (intro lexes_to_append lexes_to_string lexes_to_punctuation lexes_to_array)
  with 3 show ?case by (simp add: tokens_of_property_def)
qed

lemma lex_stringify:
  "lex None [] (JSON_stringify_capability cap) = Some (tokens_of_table (defined_properties cap))"
proof -
  have "lexes_to (''{'' @ comma_join (stringify_properties cap) @ ''}'')
      ([LBrace] @ token_join (map tokens_of_property (defined_properties cap)) @ [RBrace])"
    by (intro lexes_to_append lexes_to_punctuation lexes_to_join lexes_to_properties)
  then have "lexes_to (JSON_stringify_capability cap) (tokens_of_table (defined_properties cap))"
    by (simp add: JSON_stringify_capability_def tokens_of_table_def)
  then show ?thesis
    unfolding lexes_to_def by (metis append_Nil2 lex.simps(1) rev_rev_ident)
qed

text \<open>The parser rebuilds the table from its tokens.\<close>

lemma token_join_Cons:
  "token_join (p # ps) = p @ concat (map (\<lambda>q. Comma # q) ps)"
  by (induction ps arbitrary: p) auto

lemma parse_elements:
  "parse_table (P_comma_or_end k done) acc
     (concat (map (\<lambda>q. Comma # q) (map (\<lambda>x. [StringTok x]) ys)) @ RBracket # rest) =
   parse_table P_next ((k, rev done @ ys) # acc) rest"
  by (induction ys arbitrary: "done") (simp_all add: parse_step_def)

lemma parse_array:
  "parse_table (P_array k) acc (tokens_of_array v @ rest) = parse_table P_next ((k, v) # acc) rest"
proof (cases v)
  case Nil
  then show ?thesis by (simp add: tokens_of_array_def parse_step_def)
next
  case (Cons x xs)
  show ?thesis
    using parse_elements [of k "[x]" acc xs rest]
    by (simp add: Cons tokens_of_array_def token_join_Cons parse_step_def)
qed

lemma parse_property:
  "st = P_key \<or> st = P_key_or_end \<Longrightarrow>
   parse_table st acc (tokens_of_property p @ rest) = parse_table P_next (p # acc) rest"
  using parse_array [of "fst p" acc "snd p" rest]
  by (auto simp: tokens_of_property_def parse_step_def)

lemma parse_more_properties:
  "parse_table P_next acc (concat (map (\<lambda>q. Comma # q) (map tokens_of_property ps)) @ [RBrace]) =
     Some (rev acc @ ps)"
proof (induction ps arbitrary: acc)
  case Nil
  show ?case by (simp add: parse_step_def)
next
  case (Cons p ps)
  show ?case
    using Cons [of "p # acc"] by (simp add: parse_step_def parse_property)
qed

lemma parse_tokens_of_table: "parse_table P_start [] (tokens_of_table t) = Some t"
proof (cases t)
  case Nil
  then show ?thesis by (simp add: tokens_of_table_def parse_step_def)
next
  case (Cons p ps)
  show ?thesis
    using parse_more_properties [of "[p]" ps]
    by (simp add: Cons tokens_of_table_def token_join_Cons parse_step_def parse_property)
qed

text \<open>
  \<open>JSON.parse\<close> of \<open>JSON.stringify\<close> of a capability mapping is the table of its
  defined properties.
\<close>

lemma JSON_parse_stringify:
  "JSON_parse_table (JSON_stringify_capability cap) = Some (defined_properties cap)"
  by (simp add: JSON_parse_table_def lex_stringify parse_tokens_of_table)

lemma defined_properties_as_capability: "defined_properties (as_capability t) = t"
  by (induction t) (auto simp: as_capability_def)

lemma decode_regular_table:
  "JSON_parse_table
     (JSON_stringify_capability (as_capability (generateCapability \<lparr>isMod = False\<rparr>)))
     = Some (generateCapability \<lparr>isMod = False\<rparr>)"
  by (simp add: JSON_parse_stringify defined_properties_as_capability)

lemma regular_table_not_wildcard:
  "generateCapability \<lparr>isMod = False\<rparr> \<noteq> generateCapability \<lparr>isMod = True\<rparr>"
  by (simp add: generateCapability_def)

subsection \<open>The outcomes of the handler\<close>

lemma GET_no_email:
  assumes "Option.bind (Option.bind sess user) email = None
             \<or> Option.bind (Option.bind sess user) email = Some []"
  shows "GET pf t1 t2 (Inr sess) key =
           (\<lparr>status = 500,
             body = \<lparr>success = False, token = None, error = Some ''Token generation failed''\<rparr>\<rparr>,
            [Call_auth, Call_generateCapability \<lparr>isMod = False\<rparr>])"
  using assms by (auto simp: GET_def NextResponse_json_def Let_def)

lemma GET_email:
  assumes "Option.bind (Option.bind sess user) email = Some em" and "em \<noteq> []"
  shows "GET pf t1 t2 (Inr sess) key =
           (case createToken pf t1 t2 em key \<lparr>isMod = False\<rparr>
                   (as_capability (generateCapability \<lparr>isMod = False\<rparr>)) of
              Inl e \<Rightarrow>
                (\<lparr>status = 500,
                  body = \<lparr>success = False, token = None,
                          error = Some ''Internal server error''\<rparr>\<rparr>,
                 [Call_auth, Call_generateCapability \<lparr>isMod = False\<rparr>,
                  Call_createToken em key \<lparr>isMod = False\<rparr>
                    (as_capability (generateCapability \<lparr>isMod = False\<rparr>)),
                  Call_console_error e])
            | Inr t \<Rightarrow>
                (\<lparr>status = 200, body = \<lparr>success = True, token = Some t, error = None\<rparr>\<rparr>,
                 [Call_auth, Call_generateCapability \<lparr>isMod = False\<rparr>,
                  Call_createToken em key \<lparr>isMod = False\<rparr>
                    (as_capability (generateCapability \<lparr>isMod = False\<rparr>))]))"
  using assms by (simp add: GET_def NextResponse_json_def Let_def split: sum.splits)

lemma GET_auth_rejected:
  "GET pf t1 t2 (Inl e) key =
     (\<lparr>status = 500,
       body = \<lparr>success = False, token = None, error = Some ''Internal server error''\<rparr>\<rparr>,
      [Call_auth, Call_console_error e])"
  by (simp add: GET_def NextResponse_json_def)

section \<open>The claims\<close>

text \<open>
  C1. For every role claim that is not elevated, \<open>generateCapability\<close> returns exactly
  the table of three channels: "chat:general" and "chat:random" with subscribe, publish,
  presence and history, "chat:announcements" with subscribe, presence and history. No
  channel of the table is the wildcard and no operation list contains the wildcard.
\<close>

theorem generateCapability_not_elevated:
  assumes "\<not> isMod claim"
  shows "generateCapability claim =
           [(''chat:general'', [''subscribe'', ''publish'', ''presence'', ''history'']),
            (''chat:random'', [''subscribe'', ''publish'', ''presence'', ''history'']),
            (''chat:announcements'', [''subscribe'', ''presence'', ''history''])]
         \<and> ''*'' \<notin> fst ` set (generateCapability claim)
         \<and> (\<forall>ops \<in> snd ` set (generateCapability claim). ''*'' \<notin> set ops)"
  using assms by (simp add: generateCapability_def)

theorem generateCapability_not_elevated_witness:
  "\<not> isMod \<lparr>isMod = False\<rparr>
   \<and> generateCapability \<lparr>isMod = False\<rparr> =
       [(''chat:general'', [''subscribe'', ''publish'', ''presence'', ''history'']),
        (''chat:random'', [''subscribe'', ''publish'', ''presence'', ''history'']),
        (''chat:announcements'', [''subscribe'', ''presence'', ''history''])]
   \<and> ''*'' \<notin> fst ` set (generateCapability \<lparr>isMod = False\<rparr>)
   \<and> [''subscribe'', ''presence'', ''history'']
        \<in> snd ` set (generateCapability \<lparr>isMod = False\<rparr>)
   \<and> ''*'' \<notin> set [''subscribe'', ''presence'', ''history'']"
  using generateCapability_not_elevated [of "\<lparr>isMod = False\<rparr>"] by simp

text \<open>
  C2. For every elevated role claim, \<open>generateCapability\<close> returns the single entry
  that maps the wildcard channel to the wildcard operation, and nothing else.
\<close>

theorem generateCapability_elevated:
  assumes "isMod claim"
  shows "generateCapability claim = [(''*'', [''*''])]"
  using assms by (simp add: generateCapability_def)

theorem generateCapability_elevated_witness:
  "isMod \<lparr>isMod = True\<rparr> \<and> generateCapability \<lparr>isMod = True\<rparr> = [(''*'', [''*''])]"
  using generateCapability_elevated [of "\<lparr>isMod = True\<rparr>"] by simp

text \<open>
  C3. Whatever the request, every role claim the handler passes to
  \<open>generateCapability\<close> and to \<open>createToken\<close> has \<open>isMod = false\<close>, the capability it
  passes to \<open>createToken\<close> is the table of a role that is not elevated, and a token in
  the response carries that role claim and decodes to that table, never to the wildcard
  mapping.
\<close>

theorem GET_never_elevated:
  "(\<forall>c \<in> set (snd (GET pf now_iat now_exp auth_outcome secret)).
      (case c of
         Call_generateCapability cl \<Rightarrow> \<not> isMod cl
       | Call_createToken cid k cl cap \<Rightarrow>
           \<not> isMod cl \<and> cap = as_capability (generateCapability \<lparr>isMod = False\<rparr>)
       | _ \<Rightarrow> True))
   \<and> (\<forall>t. token (body (fst (GET pf now_iat now_exp auth_outcome secret))) = Some t \<longrightarrow>
          ably_channel_star (payload t) = JSON_stringify_claim \<lparr>isMod = False\<rparr>
          \<and> decode_capability t = Some (generateCapability \<lparr>isMod = False\<rparr>)
          \<and> decode_capability t \<noteq> Some (generateCapability \<lparr>isMod = True\<rparr>))"
proof (cases auth_outcome)
  case (Inl e)
  then show ?thesis by (simp add: GET_auth_rejected)
next
  case (Inr sess)
  show ?thesis
  proof (cases "Option.bind (Option.bind sess user) email = None
                  \<or> Option.bind (Option.bind sess user) email = Some []")
    case True
    then show ?thesis by (simp add: Inr GET_no_email)
  next
    case False
    then obtain em where em: "Option.bind (Option.bind sess user) email = Some em" "em \<noteq> []"
      by auto
    show ?thesis
    proof (cases "createToken pf now_iat now_exp em secret \<lparr>isMod = False\<rparr>
                    (as_capability (generateCapability \<lparr>isMod = False\<rparr>))")
      case (Inl e)
      then show ?thesis by (simp add: Inr GET_email [OF em])
    next
      case tok: (Inr t)
      have "decode_capability t = Some (generateCapability \<lparr>isMod = False\<rparr>)"
        by (simp add: decode_capability_def createToken_Inr(1) [OF tok] decode_regular_table)
      then show ?thesis
        using regular_table_not_wildcard
        by (simp add: Inr GET_email [OF em] tok createToken_Inr(1) [OF tok])
    qed
  qed
qed

theorem GET_never_elevated_witness:
  "Call_createToken ''a@example.com'' (Some ''app:key'') \<lparr>isMod = False\<rparr>
      (as_capability (generateCapability \<lparr>isMod = False\<rparr>))
     \<in> set (snd (GET example_platform 0 0
          (Inr (Some \<lparr>user = Some \<lparr>email = Some ''a@example.com''\<rparr>\<rparr>)) (Some ''app:key'')))
   \<and> token (body (fst (GET example_platform 0 0
          (Inr (Some \<lparr>user = Some \<lparr>email = Some ''a@example.com''\<rparr>\<rparr>)) (Some ''app:key''))))
       \<noteq> None
   \<and> map_option decode_capability
        (token (body (fst (GET example_platform 0 0
          (Inr (Some \<lparr>user = Some \<lparr>email = Some ''a@example.com''\<rparr>\<rparr>)) (Some ''app:key'')))))
       = Some (Some (generateCapability \<lparr>isMod = False\<rparr>))"
proof -
  have run: "GET example_platform 0 0
          (Inr (Some \<lparr>user = Some \<lparr>email = Some ''a@example.com''\<rparr>\<rparr>)) (Some ''app:key'')
       = (\<lparr>status = 200,
           body = \<lparr>success = True,
             token = Some \<lparr>header = \<lparr>kid = Some ''app'', alg = ''HS256''\<rparr>,
               payload = \<lparr>x_ably_capability = JSON_stringify_capability
                            (as_capability (generateCapability \<lparr>isMod = False\<rparr>)),
                          x_ably_clientId = ''a@example.com'',
                          ably_channel_star = JSON_stringify_claim \<lparr>isMod = False\<rparr>,
                          iat = Some 0, exp = Some 86400\<rparr>,
               signature = [107, 101, 121]\<rparr>,
             error = None\<rparr>\<rparr>,
          [Call_auth, Call_generateCapability \<lparr>isMod = False\<rparr>,
           Call_createToken ''a@example.com'' (Some ''app:key'') \<lparr>isMod = False\<rparr>
             (as_capability (generateCapability \<lparr>isMod = False\<rparr>))])"
    by (simp add: GET_def NextResponse_json_def createToken_Some String_split_def
        element_at_def TextEncoder_encode_def utf8_of_char_def example_platform_def epoch_def
        Let_def)
  show ?thesis
    using GET_never_elevated [of example_platform 0 0
        "Inr (Some \<lparr>user = Some \<lparr>email = Some ''a@example.com''\<rparr>\<rparr>)" "Some ''app:key''"]
    by (simp add: run)
qed

text \<open>
  C4, as stated: a secret that is not exactly two non-empty parts around one separator
  makes \<open>createToken\<close> fail. It does not hold: \<open>split(":", 2)\<close> keeps the first two
  pieces of a secret with more separators and the token is signed with the second.
\<close>

theorem createToken_malformed_secret_counterexample:
  "\<not> well_formed_secret ''a:b:c''
   \<and> (case createToken example_platform 0 0 ''a@example.com'' (Some ''a:b:c'')
              \<lparr>isMod = False\<rparr> [] of
         Inl e \<Rightarrow> False
       | Inr t \<Rightarrow> kid (header t) = Some ''a''
                  \<and> signature t = TextEncoder_encode (Some ''b''))"
  by (simp add: well_formed_secret_def createToken_Some String_split_def element_at_def
      TextEncoder_encode_def utf8_of_char_def example_platform_def Let_def)

text \<open>
  C4, amended. \<open>createToken\<close> fails, and returns no token, exactly when the platform
  rejects a zero-length key and the secret has no signing material: it has no separator,
  or nothing stands between its first separator and the next one or the end. The failure
  is the key import error. Every other secret is signed with its signing material, also
  one with an empty key identifier or with more than one separator.
\<close>

theorem createToken_fails_iff_no_signing_material:
  "(isl (createToken pf now_iat now_exp clientId (Some s) claim capability)
      \<longleftrightarrow> \<not> zero_length_key_ok pf \<and> signing_material s = [])
   \<and> (isl (createToken pf now_iat now_exp clientId (Some s) claim capability)
        \<longrightarrow> createToken pf now_iat now_exp clientId (Some s) claim capability
              = Inl KeyImportError)
   \<and> (\<forall>t. createToken pf now_iat now_exp clientId (Some s) claim capability = Inr t
        \<longrightarrow> signature t =
              hmac_sha256 pf (TextEncoder_encode (Some (signing_material s)))
                (header t, payload t))"
  unfolding createToken_by_signing_material by auto

theorem createToken_fails_iff_no_signing_material_witness:
  "\<not> zero_length_key_ok example_platform \<and> signing_material ''appkey'' = []
   \<and> createToken example_platform 0 0 ''a@example.com'' (Some ''appkey'') \<lparr>isMod = False\<rparr> []
       = Inl KeyImportError
   \<and> signing_material ''app:key:more'' = ''key''
   \<and> \<not> isl (createToken example_platform 0 0 ''a@example.com'' (Some ''app:key:more'')
              \<lparr>isMod = False\<rparr> [])"
  using createToken_fails_iff_no_signing_material
      [of example_platform 0 0 "''a@example.com''" "''appkey''" "\<lparr>isMod = False\<rparr>" "[]"]
    createToken_fails_iff_no_signing_material
      [of example_platform 0 0 "''a@example.com''" "''app:key:more''" "\<lparr>isMod = False\<rparr>" "[]"]
  by (simp add: signing_material_def example_platform_def)

text \<open>
  C5. For every non-empty identity, every secret \<open>A:B\<close> whose parts \<open>A\<close> and \<open>B\<close> are
  non-empty and free of the separator, and every capability mapping, \<open>createToken\<close>
  returns a token whose protected header has \<open>kid = A\<close> and \<open>alg = HS256\<close>.
\<close>

theorem createToken_header:
  assumes "clientId \<noteq> []"
    and "A \<noteq> []" and "B \<noteq> []"
    and "CHR '':'' \<notin> set A" and "CHR '':'' \<notin> set B"
  shows "\<exists>t. createToken pf now_iat now_exp clientId (Some (A @ CHR '':'' # B)) claim capability
               = Inr t
             \<and> kid (header t) = Some A \<and> alg (header t) = ''HS256''"
proof -
  obtain t where t:
      "createToken pf now_iat now_exp clientId (Some (A @ CHR '':'' # B)) claim capability = Inr t"
      "kid (header t) = Some A"
    using createToken_well_formed [OF assms(4) assms(3) assms(5)] by blast
  then show ?thesis
    using createToken_Inr(2) [OF t(1)] by simp
qed

theorem createToken_header_witness:
  "''a@example.com'' \<noteq> [] \<and> ''app'' \<noteq> [] \<and> ''key'' \<noteq> []
   \<and> CHR '':'' \<notin> set ''app'' \<and> CHR '':'' \<notin> set ''key''
   \<and> (case createToken example_platform 0 0 ''a@example.com'' (Some ''app:key'')
              \<lparr>isMod = False\<rparr> [] of
         Inl e \<Rightarrow> False
       | Inr t \<Rightarrow> kid (header t) = Some ''app'' \<and> alg (header t) = ''HS256'')"
  using createToken_header [of "''a@example.com''" "''app''" "''key''" example_platform 0 0
      "\<lparr>isMod = False\<rparr>" "[]"]
  by auto


text \<open>
  C6. When the session lookup returns and yields no identity (no session, no user or no
  email), the handler answers \<open>{ success: false, error: "Token generation failed" }\<close>
  with status 500, and \<open>createToken\<close> is not among its calls.
\<close>

theorem GET_without_identity:
  assumes "Option.bind (Option.bind sess user) email = None"
  shows "fst (GET pf now_iat now_exp (Inr sess) secret) =
           \<lparr>status = 500,
            body = \<lparr>success = False, token = None,
                    error = Some ''Token generation failed''\<rparr>\<rparr>
         \<and> snd (GET pf now_iat now_exp (Inr sess) secret) =
             [Call_auth, Call_generateCapability \<lparr>isMod = False\<rparr>]
         \<and> (\<forall>c \<in> set (snd (GET pf now_iat now_exp (Inr sess) secret)).
               \<forall>cid k cl cap. c \<noteq> Call_createToken cid k cl cap)"
  using assms by (simp add: GET_no_email)

theorem GET_without_identity_witness:
  "Option.bind (Option.bind (Some \<lparr>user = None\<rparr>) user) email = None
   \<and> GET example_platform 0 0 (Inr (Some \<lparr>user = None\<rparr>)) (Some ''app:key'') =
       (\<lparr>status = 500,
         body = \<lparr>success = False, token = None, error = Some ''Token generation failed''\<rparr>\<rparr>,
        [Call_auth, Call_generateCapability \<lparr>isMod = False\<rparr>])"
  using GET_without_identity [of "Some \<lparr>user = None\<rparr>" example_platform 0 0 "Some ''app:key''"]
  by (simp add: prod_eq_iff)

text \<open>
  C7. When the session yields a non-empty email and the secret is well formed, the
  handler answers \<open>{ success: true, token }\<close> with status 200; the token's identity
  claim is the email and its capability claim decodes to exactly the table of three
  channels.
\<close>

theorem GET_issues_token:
  assumes "Option.bind (Option.bind sess user) email = Some em" and "em \<noteq> []"
    and "A \<noteq> []" and "B \<noteq> []"
    and "CHR '':'' \<notin> set A" and "CHR '':'' \<notin> set B"
  shows "\<exists>t. fst (GET pf now_iat now_exp (Inr sess) (Some (A @ CHR '':'' # B))) =
               \<lparr>status = 200, body = \<lparr>success = True, token = Some t, error = None\<rparr>\<rparr>
             \<and> decode_clientId t = em
             \<and> decode_capability t =
                 Some [(''chat:general'', [''subscribe'', ''publish'', ''presence'', ''history'']),
                       (''chat:random'', [''subscribe'', ''publish'', ''presence'', ''history'']),
                       (''chat:announcements'', [''subscribe'', ''presence'', ''history''])]"
proof -
  obtain t where t:
      "createToken pf now_iat now_exp em (Some (A @ CHR '':'' # B)) \<lparr>isMod = False\<rparr>
         (as_capability (generateCapability \<lparr>isMod = False\<rparr>)) = Inr t"
    using createToken_well_formed [OF assms(5) assms(4) assms(6)] by blast
  have "decode_capability t = Some (generateCapability \<lparr>isMod = False\<rparr>)"
    by (simp add: decode_capability_def createToken_Inr(1) [OF t] decode_regular_table)
  then have table: "decode_capability t =
      Some [(''chat:general'', [''subscribe'', ''publish'', ''presence'', ''history'']),
            (''chat:random'', [''subscribe'', ''publish'', ''presence'', ''history'']),
            (''chat:announcements'', [''subscribe'', ''presence'', ''history''])]"
    by (simp add: generateCapability_def)
  have identity: "decode_clientId t = em"
    by (simp add: decode_clientId_def createToken_Inr(1) [OF t])
  show ?thesis
    by (simp add: GET_email [OF assms(1) assms(2)] t table identity)
qed

theorem GET_issues_token_witness:
  "Option.bind (Option.bind (Some \<lparr>user = Some \<lparr>email = Some ''a@example.com''\<rparr>\<rparr>) user) email
     = Some ''a@example.com''
   \<and> ''a@example.com'' \<noteq> [] \<and> ''app'' \<noteq> [] \<and> ''key'' \<noteq> []
   \<and> CHR '':'' \<notin> set ''app'' \<and> CHR '':'' \<notin> set ''key''
   \<and> status (fst (GET example_platform 0 0
          (Inr (Some \<lparr>user = Some \<lparr>email = Some ''a@example.com''\<rparr>\<rparr>)) (Some ''app:key''))) = 200
   \<and> map_option decode_capability
        (token (body (fst (GET example_platform 0 0
          (Inr (Some \<lparr>user = Some \<lparr>email = Some ''a@example.com''\<rparr>\<rparr>)) (Some ''app:key''))))) =
       Some (Some [(''chat:general'', [''subscribe'', ''publish'', ''presence'', ''history'']),
                   (''chat:random'', [''subscribe'', ''publish'', ''presence'', ''history'']),
                   (''chat:announcements'', [''subscribe'', ''presence'', ''history''])])"
  using GET_issues_token [of "Some \<lparr>user = Some \<lparr>email = Some ''a@example.com''\<rparr>\<rparr>"
      "''a@example.com''" "''app''" "''key''" example_platform 0 0]
  by auto

text \<open>
  C8, as stated: the expiry of every issued token is its issued-at time plus 86400
  seconds. It does not hold: \<open>setIssuedAt\<close> and \<open>setExpirationTime\<close> each read the
  clock, and the second reading may fall in a later second than the first.
\<close>

theorem createToken_expiry_counterexample:
  "(case createToken example_platform 1999 2000 ''a@example.com'' (Some ''app:key'')
           \<lparr>isMod = False\<rparr> [] of
      Inl e \<Rightarrow> False
    | Inr t \<Rightarrow> iat (payload t) = Some 1 \<and> exp (payload t) = Some 86402
               \<and> exp (payload t) \<noteq> map_option (\<lambda>i. i + 86400) (iat (payload t)))"
  by (simp add: createToken_by_signing_material signing_material_def example_platform_def
      epoch_def)

text \<open>
  C8, amended. In every issued token the issued-at time is the clock's second when
  \<open>setIssuedAt\<close> runs and the expiry is the clock's second when \<open>setExpirationTime\<close>
  runs plus exactly 86400 seconds; the expiry is the issued-at time plus 86400 seconds
  whenever the two readings fall in the same second.
\<close>

theorem createToken_expiry:
  assumes "createToken pf now_iat now_exp clientId apiKey claim capability = Inr t"
  shows "iat (payload t) = Some (now_iat div 1000)
         \<and> exp (payload t) = Some (now_exp div 1000 + 86400)
         \<and> (now_iat div 1000 = now_exp div 1000 \<longrightarrow>
              exp (payload t) = map_option (\<lambda>i. i + 86400) (iat (payload t)))"
  by (simp add: createToken_Inr(1) [OF assms] epoch_def)

theorem createToken_expiry_witness:
  "(case createToken example_platform 1000 1999 ''a@example.com'' (Some ''app:key'')
           \<lparr>isMod = False\<rparr> [] of
      Inl e \<Rightarrow> False
    | Inr t \<Rightarrow> iat (payload t) = Some 1 \<and> exp (payload t) = Some 86401
               \<and> exp (payload t) = map_option (\<lambda>i. i + 86400) (iat (payload t)))"
proof (cases "createToken example_platform 1000 1999 ''a@example.com'' (Some ''app:key'')
           \<lparr>isMod = False\<rparr> []")
  case (Inl e)
  then show ?thesis
    by (simp add: createToken_by_signing_material signing_material_def example_platform_def)
next
  case (Inr t)
  show ?thesis
    using createToken_expiry [OF Inr] by (simp add: Inr)
qed

text \<open>
  C9. Two calls of \<open>createToken\<close> with the same identity, secret, role claim and
  capability mapping, at any two signing instants, both fail or both succeed; when they
  succeed the two tokens have the same capability claim, both decoding to the defined
  properties of the mapping passed in, and the same identity claim, the identity passed
  in. The tokens themselves differ when the issued-at seconds differ.
\<close>

theorem createToken_same_claims:
  "(isl (createToken pf a b clientId apiKey claim capability)
      \<longleftrightarrow> isl (createToken pf c d clientId apiKey claim capability))
   \<and> (\<forall>t t'. createToken pf a b clientId apiKey claim capability = Inr t
             \<and> createToken pf c d clientId apiKey claim capability = Inr t' \<longrightarrow>
          x_ably_capability (payload t) = x_ably_capability (payload t')
          \<and> decode_capability t = Some (defined_properties capability)
          \<and> decode_capability t' = Some (defined_properties capability)
          \<and> decode_clientId t = clientId \<and> decode_clientId t' = clientId
          \<and> (a div 1000 \<noteq> c div 1000 \<longrightarrow> t \<noteq> t'))"
proof -
  have "isl (createToken pf a b clientId apiKey claim capability)
      \<longleftrightarrow> isl (createToken pf c d clientId apiKey claim capability)"
  proof (cases apiKey)
    case None
    then show ?thesis by (simp add: createToken_def)
  next
    case (Some s)
    then show ?thesis by (simp add: createToken_by_signing_material)
  qed
  moreover have "x_ably_capability (payload t) = x_ably_capability (payload t')
          \<and> decode_capability t = Some (defined_properties capability)
          \<and> decode_capability t' = Some (defined_properties capability)
          \<and> decode_clientId t = clientId \<and> decode_clientId t' = clientId
          \<and> (a div 1000 \<noteq> c div 1000 \<longrightarrow> t \<noteq> t')"
    if t: "createToken pf a b clientId apiKey claim capability = Inr t"
      and t': "createToken pf c d clientId apiKey claim capability = Inr t'" for t t'
  proof -
    have differ: "t \<noteq> t'" if "a div 1000 \<noteq> c div 1000"
      using that createToken_Inr(1) [OF t] createToken_Inr(1) [OF t']
      by (auto simp: epoch_def)
    have same: "x_ably_capability (payload t) = x_ably_capability (payload t')
          \<and> decode_capability t = Some (defined_properties capability)
          \<and> decode_capability t' = Some (defined_properties capability)
          \<and> decode_clientId t = clientId \<and> decode_clientId t' = clientId"
      by (simp add: decode_capability_def decode_clientId_def JSON_parse_stringify
          createToken_Inr(1) [OF t] createToken_Inr(1) [OF t'])
    show ?thesis
      using differ same by blast
  qed
  ultimately show ?thesis by blast
qed

theorem createToken_same_claims_witness:
  "(case (createToken example_platform 0 0 ''a@example.com'' (Some ''app:key'')
            \<lparr>isMod = False\<rparr> (as_capability (generateCapability \<lparr>isMod = False\<rparr>)),
          createToken example_platform 5000 5000 ''a@example.com'' (Some ''app:key'')
            \<lparr>isMod = False\<rparr> (as_capability (generateCapability \<lparr>isMod = False\<rparr>))) of
      (Inr t, Inr t') \<Rightarrow>
        t \<noteq> t' \<and> decode_capability t = decode_capability t'
        \<and> decode_clientId t = ''a@example.com'' \<and> decode_clientId t' = ''a@example.com''
    | _ \<Rightarrow> False)"
proof -
  obtain t where t: "createToken example_platform 0 0 ''a@example.com'' (Some ''app:key'')
            \<lparr>isMod = False\<rparr> (as_capability (generateCapability \<lparr>isMod = False\<rparr>)) = Inr t"
    by (simp add: createToken_by_signing_material signing_material_def example_platform_def)
  obtain t' where t': "createToken example_platform 5000 5000 ''a@example.com'' (Some ''app:key'')
            \<lparr>isMod = False\<rparr> (as_capability (generateCapability \<lparr>isMod = False\<rparr>)) = Inr t'"
    by (simp add: createToken_by_signing_material signing_material_def example_platform_def)
  show ?thesis
    using createToken_same_claims [of example_platform 0 0 "''a@example.com''" "Some ''app:key''"
        "\<lparr>isMod = False\<rparr>" "as_capability (generateCapability \<lparr>isMod = False\<rparr>)" 5000 5000]
    by (simp add: t t')
qed

text \<open>
  C10. When the session yields a user whose email is the empty string, the handler
  answers as for a request without identity: \<open>{ success: false, error: "Token
  generation failed" }\<close> with status 500, and \<open>createToken\<close> is not among its calls.
\<close>

theorem GET_empty_email:
  assumes "Option.bind (Option.bind sess user) email = Some []"
  shows "fst (GET pf now_iat now_exp (Inr sess) secret) =
           \<lparr>status = 500,
            body = \<lparr>success = False, token = None,
                    error = Some ''Token generation failed''\<rparr>\<rparr>
         \<and> snd (GET pf now_iat now_exp (Inr sess) secret) =
             [Call_auth, Call_generateCapability \<lparr>isMod = False\<rparr>]
         \<and> (\<forall>c \<in> set (snd (GET pf now_iat now_exp (Inr sess) secret)).
               \<forall>cid k cl cap. c \<noteq> Call_createToken cid k cl cap)
         \<and> GET pf now_iat now_exp (Inr sess) secret = GET pf now_iat now_exp (Inr None) secret"
  using assms by (simp add: GET_no_email)

theorem GET_empty_email_witness:
  "Option.bind (Option.bind (Some \<lparr>user = Some \<lparr>email = Some []\<rparr>\<rparr>) user) email = Some []
   \<and> GET example_platform 0 0 (Inr (Some \<lparr>user = Some \<lparr>email = Some []\<rparr>\<rparr>)) (Some ''app:key'') =
       (\<lparr>status = 500,
         body = \<lparr>success = False, token = None, error = Some ''Token generation failed''\<rparr>\<rparr>,
        [Call_auth, Call_generateCapability \<lparr>isMod = False\<rparr>])"
  using GET_empty_email [of "Some \<lparr>user = Some \<lparr>email = Some []\<rparr>\<rparr>" example_platform 0 0
      "Some ''app:key''"]
  by (simp add: prod_eq_iff)

end
